theory Spec2Isabelle
  imports Main "HOL-Library.Word"
begin

section \<open>Strings and arrays of the host language\<close>

text \<open>
  The editor of \<^verbatim>\<open>src/src/editor.ts\<close> is written in TypeScript. Its strings are
  sequences of 16-bit code units, and \<^verbatim>\<open>s.length\<close> counts code units, so a string is
  a list of 16-bit words. \<open>js\<close> writes an ASCII literal as such a string.
\<close>

type_synonym code_unit = "16 word"
type_synonym jsstring = "code_unit list"

definition js :: "string \<Rightarrow> jsstring" where
  "js s = map (\<lambda>c. of_nat (of_char c)) s"

definition newline :: "code_unit" where
  "newline = 0x000A"

text \<open>
  \<^verbatim>\<open>s.split('\n')\<close>: the pieces between the newlines, in order. The result is never
  empty: the empty string gives one empty piece. (The third case of the inner
  \<open>case\<close> cannot occur; it keeps the function total.)
\<close>

fun split_nl :: "jsstring \<Rightarrow> jsstring list" where
  "split_nl [] = [[]]"
| "split_nl (c # cs) =
     (if c = newline then [] # split_nl cs
      else (case split_nl cs of
              l # ls \<Rightarrow> (c # l) # ls
            | [] \<Rightarrow> [[c]]))"

text \<open>
  \<^verbatim>\<open>s.slice(0, n)\<close> and \<^verbatim>\<open>s.slice(n)\<close> for a column \<open>n \<ge> 0\<close>: both clamp \<open>n\<close>
  to the length of the string, as \<open>take\<close> and \<open>drop\<close> do.
\<close>

definition slice_to :: "nat \<Rightarrow> jsstring \<Rightarrow> jsstring" where
  "slice_to n s = take n s"

definition slice_from :: "nat \<Rightarrow> jsstring \<Rightarrow> jsstring" where
  "slice_from n s = drop n s"

text \<open>
  \<^verbatim>\<open>s.replace(pat, '')\<close> with a string pattern removes the first occurrence of
  \<open>pat\<close>, if there is one.
\<close>

fun replace_first :: "jsstring \<Rightarrow> jsstring \<Rightarrow> jsstring" where
  "replace_first pat [] = []"
| "replace_first pat (c # cs) =
     (if take (length pat) (c # cs) = pat then drop (length pat) (c # cs)
      else c # replace_first pat cs)"

text \<open>\<^verbatim>\<open>s.trim()\<close> strips white space and line terminators from both ends.\<close>

definition is_ws :: "code_unit \<Rightarrow> bool" where
  "is_ws c \<longleftrightarrow>
     c = 0x0009 \<or> c = 0x000A \<or> c = 0x000B \<or> c = 0x000C \<or> c = 0x000D \<or> c = 0x0020 \<or>
     c = 0x00A0 \<or> c = 0x1680 \<or> (0x2000 \<le> c \<and> c \<le> 0x200A) \<or> c = 0x2028 \<or>
     c = 0x2029 \<or> c = 0x202F \<or> c = 0x205F \<or> c = 0x3000 \<or> c = 0xFEFF"

definition trim :: "jsstring \<Rightarrow> jsstring" where
  "trim s = rev (dropWhile is_ws (rev (dropWhile is_ws s)))"

text \<open>
  An array is a list of slots; a slot is \<open>None\<close> where the array has a hole, which
  reads as \<^verbatim>\<open>undefined\<close>. \<open>aget\<close> is \<^verbatim>\<open>xs[i]\<close> (\<^verbatim>\<open>undefined\<close> out of
  range), \<open>aset\<close> is \<^verbatim>\<open>xs[i] = v\<close> (beyond the end the array grows, the slots in
  between being holes), \<open>splice0\<close> is \<^verbatim>\<open>xs.splice(start, 0, item)\<close> (a start beyond
  the end is clamped to the end).
\<close>

definition aget :: "'a option list \<Rightarrow> nat \<Rightarrow> 'a option" where
  "aget xs i = (if i < length xs then xs ! i else None)"

definition aset :: "nat \<Rightarrow> 'a \<Rightarrow> 'a option list \<Rightarrow> 'a option list" where
  "aset i v xs =
     (if i < length xs then xs[i := Some v]
      else xs @ replicate (i - length xs) None @ [Some v])"

definition splice0 :: "nat \<Rightarrow> 'a \<Rightarrow> 'a option list \<Rightarrow> 'a option list" where
  "splice0 start item xs = take start xs @ Some item # drop start xs"

text \<open>\<^verbatim>\<open>v || ''\<close> on a slot: \<^verbatim>\<open>undefined\<close> and the empty string both give \<^verbatim>\<open>''\<close>.\<close>

definition or_empty :: "jsstring option \<Rightarrow> jsstring" where
  "or_empty v = (case v of None \<Rightarrow> [] | Some l \<Rightarrow> l)"

text \<open>\<^verbatim>\<open>xs.join('\n')\<close>: a hole contributes the empty string.\<close>

fun join_nl :: "jsstring option list \<Rightarrow> jsstring" where
  "join_nl [] = []"
| "join_nl [x] = or_empty x"
| "join_nl (x # y # ys) = or_empty x @ newline # join_nl (y # ys)"

text \<open>
  \<^verbatim>\<open>v || d\<close> on an optional string: \<^verbatim>\<open>undefined\<close> and \<^verbatim>\<open>''\<close> are false and
  give \<open>d\<close>.
\<close>

definition or_default :: "jsstring option \<Rightarrow> jsstring \<Rightarrow> jsstring" where
  "or_default v d = (case v of None \<Rightarrow> d | Some x \<Rightarrow> if x = [] then d else x)"

section \<open>The editor state and its collaborators\<close>

text \<open>
  What a call can throw: \<open>TypeError\<close> is reading \<^verbatim>\<open>.length\<close> of \<^verbatim>\<open>undefined\<close>;
  \<open>HostError\<close> is an exception of the file system or a rejection of the command
  executor.
\<close>

datatype error = TypeError | HostError jsstring

text \<open>
  Of a slash command the editor reads the name only. The numbers of the state (the
  cursor, the scroll offset, the selected index) are only ever set to 0, to a length
  or to a sum of such, so they are natural numbers.
\<close>

record SlashCommand =
  name :: jsstring

record EditorOptions =
  opt_filePath :: "jsstring option"
  opt_content :: "jsstring option"
  opt_theme :: "jsstring option"

record EditorState =
  lines :: "jsstring option list"
  cursorLine :: nat
  cursorColumn :: nat
  scrollOffset :: nat
  isDirty :: bool
  filePath :: "jsstring option"
  theme :: jsstring
  isCommandPaletteOpen :: bool
  commandInput :: jsstring
  filteredCommands :: "SlashCommand list"
  selectedCommandIndex :: nat

text \<open>
  The context handed to the command executor. \<^verbatim>\<open>selection\<close> and \<^verbatim>\<open>metadata\<close>
  are always \<^verbatim>\<open>undefined\<close>.
\<close>

record CursorInfo =
  line :: nat
  column :: nat
  offset :: nat

record CommandContext =
  cursor :: CursorInfo
  content :: jsstring
  selection :: "unit option"
  metadata :: "unit option"

text \<open>
  The command core (\<^verbatim>\<open>@compilr-dev/editor-core\<close>) is an external package: its
  functions are parameters of the model. \<open>'a\<close> is the type of the parsed arguments.
  The parser returns \<open>None\<close> for \<^verbatim>\<open>null\<close>; the executor's promise resolves to a
  string (\<open>Inr\<close>) or rejects (\<open>Inl\<close>). The registry that \<^verbatim>\<open>registerCommands\<close> fills
  in the constructor is read through \<open>getAllCommands\<close> and \<open>searchCommands\<close> only.
\<close>

record 'a CommandCore =
  getAllCommands :: "SlashCommand list"
  searchCommands :: "jsstring \<Rightarrow> SlashCommand list"
  parseCommandInput :: "jsstring \<Rightarrow> (jsstring \<times> 'a) option"
  executeCommand :: "jsstring \<Rightarrow> 'a \<Rightarrow> CommandContext \<Rightarrow> error + jsstring"

text \<open>
  The file system (\<^verbatim>\<open>fs\<close> of the host), over a type \<open>'fs\<close> of file-system states.
  \<open>readFileSync\<close> returns the content or throws; \<open>writeFileSync\<close> returns the new
  file system and the exception, if it threw.
\<close>

record 'fs NodeFs =
  existsSync :: "jsstring \<Rightarrow> 'fs \<Rightarrow> bool"
  readFileSync :: "jsstring \<Rightarrow> 'fs \<Rightarrow> error + jsstring"
  writeFileSync :: "jsstring \<Rightarrow> jsstring \<Rightarrow> 'fs \<Rightarrow> error option \<times> 'fs"

section \<open>The operations of the editor\<close>

text \<open>
  \<^verbatim>\<open>new Editor(options)\<close>. The content is \<^verbatim>\<open>options.content || ''\<close>, replaced by
  the file's content when a path is given and the file exists; reading may throw.
\<close>

definition constructor :: "'fs NodeFs \<Rightarrow> 'fs \<Rightarrow> EditorOptions \<Rightarrow> error + EditorState" where
  "constructor io fs options =
     (let content0 = or_default (opt_content options) [];
          loaded =
            (case opt_filePath options of
               None \<Rightarrow> Inr content0
             | Some p \<Rightarrow>
                 if p \<noteq> [] \<and> existsSync io p fs then readFileSync io p fs
                 else Inr content0)
      in case loaded of
           Inl e \<Rightarrow> Inl e
         | Inr c \<Rightarrow>
             Inr \<lparr> lines = map Some (split_nl c),
                   cursorLine = 0,
                   cursorColumn = 0,
                   scrollOffset = 0,
                   isDirty = False,
                   filePath = opt_filePath options,
                   theme = or_default (opt_theme options) (js ''default''),
                   isCommandPaletteOpen = False,
                   commandInput = [],
                   filteredCommands = [],
                   selectedCommandIndex = 0 \<rparr>)"

definition getContent :: "EditorState \<Rightarrow> jsstring" where
  "getContent s = join_nl (lines s)"

definition setContent :: "jsstring \<Rightarrow> EditorState \<Rightarrow> EditorState" where
  "setContent c s = s\<lparr> lines := map Some (split_nl c), isDirty := True \<rparr>"

definition getCursor :: "EditorState \<Rightarrow> nat \<times> nat" where
  "getCursor s = (cursorLine s, cursorColumn s)"

text \<open>
  The loop over the middle lines of a multi-line insert:
  \<^verbatim>\<open>for (let i = 1; i < insertLines.length - 1; i++) lines.splice(cursorLine + i, 0, insertLines[i])\<close>.
\<close>

function insert_middle ::
  "nat \<Rightarrow> nat \<Rightarrow> jsstring list \<Rightarrow> jsstring option list \<Rightarrow> jsstring option list" where
  "insert_middle i cl insertLines ls =
     (if i < length insertLines - 1
      then insert_middle (i + 1) cl insertLines (splice0 (cl + i) (insertLines ! i) ls)
      else ls)"
  by pat_completeness auto
termination
  by (relation "measure (\<lambda>(i, cl, insertLines, ls). length insertLines - 1 - i)") auto

declare insert_middle.simps [simp del]

definition insertText :: "jsstring \<Rightarrow> EditorState \<Rightarrow> EditorState" where
  "insertText ins s =
     (let cl = cursorLine s;
          cc = cursorColumn s;
          currentLine = or_empty (aget (lines s) cl);
          insertLines = split_nl ins
      in if length insertLines = 1 then
           s\<lparr> lines := aset cl (slice_to cc currentLine @ ins @ slice_from cc currentLine) (lines s),
              cursorColumn := cc + length ins,
              isDirty := True \<rparr>
         else
           (let beforeCursor = slice_to cc currentLine;
                afterCursor = slice_from cc currentLine;
                ls1 = aset cl (beforeCursor @ insertLines ! 0) (lines s);
                ls2 = insert_middle 1 cl insertLines ls1;
                lastLineIndex = cl + length insertLines - 1;
                lastInsertLine = insertLines ! (length insertLines - 1);
                ls3 = splice0 lastLineIndex (lastInsertLine @ afterCursor) ls2
            in s\<lparr> lines := ls3,
                  cursorLine := lastLineIndex,
                  cursorColumn := length lastInsertLine,
                  isDirty := True \<rparr>))"

text \<open>
  \<^verbatim>\<open>save()\<close>: the result, the state and the file system afterwards. An absent or
  empty path is false; an exception of the write is caught.
\<close>

definition save :: "'fs NodeFs \<Rightarrow> EditorState \<Rightarrow> 'fs \<Rightarrow> bool \<times> EditorState \<times> 'fs" where
  "save io s fs =
     (case filePath s of
        None \<Rightarrow> (False, s, fs)
      | Some p \<Rightarrow>
          if p = [] then (False, s, fs)
          else (case writeFileSync io p (getContent s) fs of
                  (None, fs') \<Rightarrow> (True, s\<lparr> isDirty := False \<rparr>, fs')
                | (Some e, fs') \<Rightarrow> (False, s, fs')))"

definition openCommandPalette :: "'a CommandCore \<Rightarrow> EditorState \<Rightarrow> EditorState" where
  "openCommandPalette core s =
     s\<lparr> isCommandPaletteOpen := True,
        commandInput := [],
        filteredCommands := getAllCommands core,
        selectedCommandIndex := 0 \<rparr>"

definition closeCommandPalette :: "EditorState \<Rightarrow> EditorState" where
  "closeCommandPalette s =
     s\<lparr> isCommandPaletteOpen := False,
        commandInput := [],
        filteredCommands := [],
        selectedCommandIndex := 0 \<rparr>"

definition filterCommands :: "'a CommandCore \<Rightarrow> jsstring \<Rightarrow> EditorState \<Rightarrow> EditorState" where
  "filterCommands core input s =
     s\<lparr> commandInput := input,
        filteredCommands := (if input \<noteq> [] then searchCommands core input else getAllCommands core),
        selectedCommandIndex := 0 \<rparr>"

text \<open>
  The offset loop of \<^verbatim>\<open>createCommandContext\<close>:
  \<^verbatim>\<open>for (let i = 0; i < cursorLine; i++) offset += lines[i].length + 1\<close>.
  Reading \<^verbatim>\<open>.length\<close> of a line that is not there throws.
\<close>

function offset_loop :: "nat \<Rightarrow> nat \<Rightarrow> jsstring option list \<Rightarrow> nat \<Rightarrow> error + nat" where
  "offset_loop i cl ls off =
     (if i < cl then
        (case aget ls i of
           None \<Rightarrow> Inl TypeError
         | Some l \<Rightarrow> offset_loop (i + 1) cl ls (off + length l + 1))
      else Inr off)"
  by pat_completeness auto
termination
  by (relation "measure (\<lambda>(i, cl, ls, off). cl - i)") auto

declare offset_loop.simps [simp del]

definition createCommandContext :: "EditorState \<Rightarrow> error + CommandContext" where
  "createCommandContext s =
     (case offset_loop 0 (cursorLine s) (lines s) 0 of
        Inl e \<Rightarrow> Inl e
      | Inr off \<Rightarrow>
          Inr \<lparr> cursor = \<lparr> line = cursorLine s, column = cursorColumn s,
                           offset = off + cursorColumn s \<rparr>,
                content = getContent s,
                selection = None,
                metadata = None \<rparr>)"

text \<open>
  \<^verbatim>\<open>executeSelectedCommand()\<close>, run without another call of the editor in between
  (the editor is single-threaded and the executor does not see it). The result is
  the exception of a rejected promise, if any, and the state afterwards: where the
  call rejects, nothing of the state has been written yet.
\<close>

definition executeSelectedCommand ::
  "'a CommandCore \<Rightarrow> EditorState \<Rightarrow> error option \<times> EditorState" where
  "executeSelectedCommand core s =
     (if selectedCommandIndex s < length (filteredCommands s) then
        (let command = filteredCommands s ! selectedCommandIndex s;
             fullInput = js ''/'' @ name command @ js '' '' @
                         trim (replace_first (name command) (commandInput s))
         in case parseCommandInput core fullInput of
              None \<Rightarrow> (None, closeCommandPalette s)
            | Some parsed \<Rightarrow>
                (case createCommandContext s of
                   Inl e \<Rightarrow> (Some e, s)
                 | Inr ctx \<Rightarrow>
                     (case executeCommand core (fst parsed) (snd parsed) ctx of
                        Inl e \<Rightarrow> (Some e, s)
                      | Inr result \<Rightarrow> (None, closeCommandPalette (insertText result s)))))
      else (None, s))"

text \<open>
  \<^verbatim>\<open>executeCommand(input)\<close> of the editor: the state is only read. So it is by
  \<^verbatim>\<open>getState\<close> and \<^verbatim>\<open>isDirty\<close> (the field \<open>isDirty\<close>); \<^verbatim>\<open>start\<close>, \<^verbatim>\<open>stop\<close> and
  \<^verbatim>\<open>isRunning\<close> work on the flag \<^verbatim>\<open>_isRunning\<close>, which is not part of the state.
\<close>

definition editor_executeCommand ::
  "'a CommandCore \<Rightarrow> jsstring \<Rightarrow> EditorState \<Rightarrow> error + jsstring option" where
  "editor_executeCommand core input s =
     (case parseCommandInput core input of
        None \<Rightarrow> Inr None
      | Some parsed \<Rightarrow>
          (case createCommandContext s of
             Inl e \<Rightarrow> Inl e
           | Inr ctx \<Rightarrow>
               (case executeCommand core (fst parsed) (snd parsed) ctx of
                  Inl e \<Rightarrow> Inl e
                | Inr result \<Rightarrow> Inr (Some result))))"

section \<open>The cursor invariant and the closed palette\<close>

text \<open>
  \<open>0 \<le> line < lines.length\<close> and \<open>0 \<le> column \<le> lines[line].length\<close>: the cursor's
  line is a line of the document (not a hole), and the column is within it.
\<close>

definition cursor_ok :: "EditorState \<Rightarrow> bool" where
  "cursor_ok s =
     (case aget (lines s) (cursorLine s) of
        None \<Rightarrow> False
      | Some l \<Rightarrow> cursorColumn s \<le> length l)"

text \<open>The palette as \<^verbatim>\<open>closeCommandPalette\<close> leaves it.\<close>

definition palette_closed :: "EditorState \<Rightarrow> bool" where
  "palette_closed s \<longleftrightarrow>
     \<not> isCommandPaletteOpen s \<and> commandInput s = [] \<and> filteredCommands s = [] \<and>
     selectedCommandIndex s = 0"

section \<open>Concrete collaborators and states\<close>

text \<open>
  A file system in memory (a list of paths with their contents, the newest first)
  and a command core with the one command \<^verbatim>\<open>h1\<close>: the search keeps the commands
  whose name starts with the query, the parser reads \<^verbatim>\<open>/name rest\<close>, the executor
  knows \<^verbatim>\<open>h1\<close> and rejects every other name.
\<close>

definition mem_io :: "(jsstring \<times> jsstring) list NodeFs" where
  "mem_io =
     \<lparr> existsSync = (\<lambda>p fs. map_of fs p \<noteq> None),
       readFileSync = (\<lambda>p fs. case map_of fs p of
                                 None \<Rightarrow> Inl (HostError (js ''ENOENT''))
                               | Some c \<Rightarrow> Inr c),
       writeFileSync = (\<lambda>p c fs. (None, (p, c) # fs)) \<rparr>"

definition demo_core :: "jsstring CommandCore" where
  "demo_core =
     \<lparr> getAllCommands = [\<lparr> name = js ''h1'' \<rparr>],
       searchCommands = (\<lambda>q. filter (\<lambda>c. take (length q) (name c) = q) [\<lparr> name = js ''h1'' \<rparr>]),
       parseCommandInput =
         (\<lambda>i. if take 1 i = js ''/''
              then Some (takeWhile (\<lambda>c. c \<noteq> 0x0020) (drop 1 i),
                         drop 1 (dropWhile (\<lambda>c. c \<noteq> 0x0020) (drop 1 i)))
              else None),
       executeCommand =
         (\<lambda>n a ctx. if n = js ''h1'' then Inr (js ''# '' @ a)
                    else Inl (HostError (js ''unknown command''))) \<rparr>"

text \<open>The editor of \<^verbatim>\<open>new Editor()\<close>: no path, no content, the default theme.\<close>

definition no_options :: EditorOptions where
  "no_options = \<lparr> opt_filePath = None, opt_content = None, opt_theme = None \<rparr>"

definition fresh :: EditorState where
  "fresh =
     \<lparr> lines = [Some []], cursorLine = 0, cursorColumn = 0, scrollOffset = 0,
       isDirty = False, filePath = None, theme = js ''default'',
       isCommandPaletteOpen = False, commandInput = [], filteredCommands = [],
       selectedCommandIndex = 0 \<rparr>"

text \<open>
  The document \<^verbatim>\<open>"a\nb"\<close> with the cursor at line 0, column 1: the editor of
  \<^verbatim>\<open>new Editor({content: "\nb"})\<close> after \<^verbatim>\<open>insertText("a")\<close>.
\<close>

definition doc_ab :: EditorState where
  "doc_ab = fresh\<lparr> lines := [Some (js ''a''), Some (js ''b'')], cursorColumn := 1,
                    isDirty := True \<rparr>"

text \<open>
  The palette opened on \<open>fresh\<close> and filtered with a query that matches no command,
  and the palette opened with its one command selected.
\<close>

definition zero_matches :: EditorState where
  "zero_matches = filterCommands demo_core (js ''zzz'') (openCommandPalette demo_core fresh)"

definition h1_selected :: EditorState where
  "h1_selected = filterCommands demo_core (js ''h1'') (openCommandPalette demo_core fresh)"

text \<open>Options that name a file, and a file system that has it.\<close>

definition notes_options :: EditorOptions where
  "notes_options =
     \<lparr> opt_filePath = Some (js ''notes.md''), opt_content = Some (js ''hello''),
       opt_theme = None \<rparr>"

definition notes_fs :: "(jsstring \<times> jsstring) list" where
  "notes_fs = [(js ''notes.md'', js ''one\<newline>two'')]"

section \<open>Splitting and joining\<close>

lemma split_nl_nonempty: "split_nl s \<noteq> []"
  by (induction s) (auto split: list.splits)

lemma length_split_nl: "length (split_nl s) = Suc (count_list s newline)"
  by (induction s) (auto split: list.splits simp: split_nl_nonempty)

lemma split_nl_no_newline: "newline \<notin> set s \<Longrightarrow> split_nl s = [s]"
  by (induction s) auto

lemma join_nl_Cons: "ys \<noteq> [] \<Longrightarrow> join_nl (x # ys) = or_empty x @ newline # join_nl ys"
  by (cases ys) auto

lemma join_split_nl: "join_nl (map Some (split_nl x)) = x"
proof (induction x)
  case Nil
  show ?case by (simp add: or_empty_def)
next
  case (Cons c cs)
  show ?case
  proof (cases "c = newline")
    case True
    with Cons show ?thesis
      by (simp add: join_nl_Cons split_nl_nonempty or_empty_def)
  next
    case False
    obtain l ls where sp: "split_nl cs = l # ls"
      using split_nl_nonempty [of cs] by (cases "split_nl cs") auto
    with Cons have "join_nl (Some l # map Some ls) = cs" by simp
    then have "join_nl (Some (c # l) # map Some ls) = c # cs"
      by (cases ls) (auto simp: or_empty_def)
    with False sp show ?thesis by simp
  qed
qed

section \<open>Arrays\<close>

lemma aget_aset_same: "aget (aset i v xs) i = Some v"
  by (simp add: aget_def aset_def nth_append)

lemma length_aset: "length (aset i v xs) = max (Suc i) (length xs)"
  by (auto simp: aset_def)

lemma length_splice0: "length (splice0 k v xs) = Suc (length xs)"
  by (simp add: splice0_def)

lemma aget_splice0_at: "k \<le> length xs \<Longrightarrow> aget (splice0 k v xs) k = Some v"
  by (simp add: aget_def splice0_def nth_append)

lemma aget_Some_length: "aget xs i = Some v \<Longrightarrow> i < length xs"
  by (simp add: aget_def split: if_splits)

text \<open>Each round of the loop over the middle lines adds one line.\<close>

lemma length_insert_middle:
  "length (insert_middle i cl il ls) = length ls + (length il - 1 - i)"
proof (induction i cl il ls rule: insert_middle.induct)
  case (1 i cl il ls)
  show ?case
  proof (cases "i < length il - 1")
    case True
    with 1 show ?thesis by (simp add: length_splice0 insert_middle.simps [of i])
  next
    case False
    then show ?thesis by (simp add: insert_middle.simps [of i])
  qed
qed

section \<open>Facts about the operations\<close>

lemmas eval_defs = js_def newline_def aget_def aset_def splice0_def or_empty_def or_default_def
  slice_to_def slice_from_def getCursor_def insert_middle.simps insertText_def

lemmas demo_defs = demo_core_def fresh_def openCommandPalette_def filterCommands_def
  closeCommandPalette_def

lemma cursor_ok_D:
  assumes "cursor_ok s"
  obtains l where "aget (lines s) (cursorLine s) = Some l" and "cursorColumn s \<le> length l"
    and "cursorLine s < length (lines s)"
  using assms by (auto simp: cursor_ok_def split: option.splits dest: aget_Some_length)

lemma length_lines_insertText:
  assumes "cursorLine s < length (lines s)"
  shows "length (lines (insertText ins s)) = length (lines s) + count_list ins newline"
proof (cases "length (split_nl ins) = 1")
  case True
  with assms show ?thesis
    by (simp add: insertText_def Let_def length_aset length_split_nl)
next
  case False
  with assms show ?thesis
    by (simp add: insertText_def Let_def length_aset length_splice0 length_insert_middle
        length_split_nl)
qed

lemma cursor_ok_insertText:
  assumes "cursor_ok s"
  shows "cursor_ok (insertText ins s)"
proof -
  from assms obtain l where l: "aget (lines s) (cursorLine s) = Some l"
    and c: "cursorColumn s \<le> length l" and lt: "cursorLine s < length (lines s)"
    by (rule cursor_ok_D)
  show ?thesis
  proof (cases "length (split_nl ins) = 1")
    case True
    with l c show ?thesis
      by (simp add: cursor_ok_def insertText_def Let_def aget_aset_same or_empty_def
          slice_to_def slice_from_def)
  next
    case False
    let ?n = "length (split_nl ins)"
    let ?ls2 = "insert_middle 1 (cursorLine s) (split_nl ins)
        (aset (cursorLine s) (slice_to (cursorColumn s) l @ split_nl ins ! 0) (lines s))"
    have n2: "2 \<le> ?n" using False by (simp add: length_split_nl)
    have "length ?ls2 = length (lines s) + (?n - 2)"
      using lt by (simp add: length_insert_middle length_aset)
    then have le: "cursorLine s + ?n - 1 \<le> length ?ls2" using lt n2 by simp
    show ?thesis
      using False l aget_splice0_at [OF le]
      by (simp add: cursor_ok_def insertText_def Let_def or_empty_def)
  qed
qed

lemma insertText_single:
  assumes "aget (lines s) (cursorLine s) = Some l" and "newline \<notin> set ins"
  shows "insertText ins s =
     s\<lparr> lines := (lines s)[cursorLine s :=
                     Some (take (cursorColumn s) l @ ins @ drop (cursorColumn s) l)],
        cursorColumn := cursorColumn s + length ins, isDirty := True \<rparr>"
proof -
  have lt: "cursorLine s < length (lines s)" using assms(1) by (rule aget_Some_length)
  show ?thesis using assms lt
    by (simp add: insertText_def Let_def split_nl_no_newline aset_def or_empty_def
        slice_to_def slice_from_def)
qed

lemma isDirty_insertText: "isDirty (insertText ins s)"
  by (simp add: insertText_def Let_def)

lemma cursor_ok_fields:
  "lines s' = lines s \<Longrightarrow> cursorLine s' = cursorLine s \<Longrightarrow> cursorColumn s' = cursorColumn s
   \<Longrightarrow> cursor_ok s' = cursor_ok s"
  by (simp add: cursor_ok_def cong: option.case_cong)

lemma cursor_ok_closeCommandPalette: "cursor_ok (closeCommandPalette s) = cursor_ok s"
  by (rule cursor_ok_fields) (simp_all add: closeCommandPalette_def)

lemma cursor_ok_openCommandPalette: "cursor_ok (openCommandPalette core s) = cursor_ok s"
  by (rule cursor_ok_fields) (simp_all add: openCommandPalette_def)

lemma cursor_ok_filterCommands: "cursor_ok (filterCommands core input s) = cursor_ok s"
  by (rule cursor_ok_fields) (simp_all add: filterCommands_def)

lemma cursor_ok_save: "cursor_ok (fst (snd (save io s fs))) = cursor_ok s"
  by (rule cursor_ok_fields) (simp_all add: save_def split: option.splits prod.splits)

lemma cursor_ok_setContent:
  "cursor_ok (setContent c s) \<longleftrightarrow>
     cursorLine s < length (split_nl c) \<and> cursorColumn s \<le> length (split_nl c ! cursorLine s)"
  by (simp add: cursor_ok_def setContent_def aget_def)

text \<open>
  The three ways \<open>executeSelectedCommand\<close> leaves the state: untouched, the palette
  closed, or the result inserted and the palette closed.
\<close>

lemma executeSelectedCommand_cases:
  "snd (executeSelectedCommand core s) = s \<or>
   snd (executeSelectedCommand core s) = closeCommandPalette s \<or>
   (\<exists>r. snd (executeSelectedCommand core s) = closeCommandPalette (insertText r s))"
  by (auto simp: executeSelectedCommand_def Let_def split: option.splits sum.splits)

lemma cursor_ok_executeSelectedCommand:
  assumes "cursor_ok s"
  shows "cursor_ok (snd (executeSelectedCommand core s))"
  using executeSelectedCommand_cases [of core s] assms
  by (auto simp: cursor_ok_closeCommandPalette cursor_ok_insertText)

lemma palette_closed_closeCommandPalette: "palette_closed (closeCommandPalette s)"
  by (simp add: palette_closed_def closeCommandPalette_def)

lemma executeSelectedCommand_selected:
  assumes "selectedCommandIndex s < length (filteredCommands s)"
    and "fst (executeSelectedCommand core s) = None"
  shows "palette_closed (snd (executeSelectedCommand core s))"
  using assms
  by (auto simp: executeSelectedCommand_def Let_def palette_closed_closeCommandPalette
      split: option.splits sum.splits)

lemma executeSelectedCommand_not_selected:
  assumes "\<not> selectedCommandIndex s < length (filteredCommands s)"
  shows "executeSelectedCommand core s = (None, s)"
  using assms by (simp add: executeSelectedCommand_def)

text \<open>A rejected execution leaves the whole state, the open palette with it.\<close>

lemma executeSelectedCommand_rejected:
  assumes "fst (executeSelectedCommand core s) = Some e"
  shows "snd (executeSelectedCommand core s) = s"
  using assms
  by (auto simp: executeSelectedCommand_def Let_def split: option.splits sum.splits if_splits)

section \<open>The concrete states\<close>

lemma constructor_no_options: "constructor io fs no_options = Inr fresh"
  by (simp add: constructor_def no_options_def fresh_def or_default_def)

lemma doc_ab_reachable:
  "map_sum id (insertText (js ''a''))
     (constructor io fs (no_options\<lparr> opt_content := Some (js ''\<newline>b'') \<rparr>)) = Inr doc_ab"
  by (simp add: constructor_def no_options_def doc_ab_def fresh_def eval_defs)

lemma cursor_ok_doc_ab: "cursor_ok doc_ab"
  by (simp add: cursor_ok_def doc_ab_def fresh_def aget_def js_def)

lemma zero_matches_eq:
  "zero_matches = fresh\<lparr> isCommandPaletteOpen := True, commandInput := js ''zzz'' \<rparr>"
  by (simp add: zero_matches_def demo_defs js_def)

lemma h1_selected_eq:
  "h1_selected = fresh\<lparr> isCommandPaletteOpen := True, commandInput := js ''h1'',
      filteredCommands := [\<lparr> name = js ''h1'' \<rparr>] \<rparr>"
  by (simp add: h1_selected_def demo_defs js_def)

lemma offset_loop_0: "offset_loop 0 0 ls off = Inr off"
  by (simp add: offset_loop.simps)

lemma execute_h1:
  "executeSelectedCommand demo_core h1_selected =
     (None, fresh\<lparr> lines := [Some (js ''# '')], cursorColumn := 2, isDirty := True \<rparr>)"
  by (simp add: h1_selected_eq executeSelectedCommand_def Let_def demo_core_def fresh_def
      closeCommandPalette_def createCommandContext_def offset_loop_0 trim_def is_ws_def
      getContent_def eval_defs)

section \<open>The claims\<close>

text \<open>
  C1, as amended. For the document \<^verbatim>\<open>"a\nb"\<close> (lines \<^verbatim>\<open>["a", "b"]\<close>) with the
  cursor at line 0, column 1, \<^verbatim>\<open>insertText("X\nY")\<close> yields the lines
  \<^verbatim>\<open>["aX", "Y", "b"]\<close> and leaves the cursor at line 1, column 1: the text after
  the cursor on line 0 is empty, and the line \<^verbatim>\<open>"b"\<close> stays a line of its own.
\<close>

theorem insertText_scenario:
  "lines (insertText (js ''X\<newline>Y'')
      (s\<lparr> lines := [Some (js ''a''), Some (js ''b'')], cursorLine := 0, cursorColumn := 1 \<rparr>))
     = [Some (js ''aX''), Some (js ''Y''), Some (js ''b'')] \<and>
   getCursor (insertText (js ''X\<newline>Y'')
      (s\<lparr> lines := [Some (js ''a''), Some (js ''b'')], cursorLine := 0, cursorColumn := 1 \<rparr>))
     = (1, 1)"
  by (simp add: eval_defs)

text \<open>The scenario at \<open>doc_ab\<close>, and the content afterwards.\<close>

theorem insertText_scenario_witness:
  "lines (insertText (js ''X\<newline>Y'') doc_ab) = [Some (js ''aX''), Some (js ''Y''), Some (js ''b'')] \<and>
   getCursor (insertText (js ''X\<newline>Y'') doc_ab) = (1, 1) \<and>
   getContent (insertText (js ''X\<newline>Y'') doc_ab) = js ''aX\<newline>Y\<newline>b''"
proof -
  have eq: "doc_ab\<lparr> lines := [Some (js ''a''), Some (js ''b'')], cursorLine := 0,
      cursorColumn := 1 \<rparr> = doc_ab"
    by (simp add: doc_ab_def fresh_def)
  have "lines (insertText (js ''X\<newline>Y'') doc_ab)
          = [Some (js ''aX''), Some (js ''Y''), Some (js ''b'')] \<and>
        getCursor (insertText (js ''X\<newline>Y'') doc_ab) = (1, 1)"
    using insertText_scenario [of doc_ab] unfolding eq .
  then show ?thesis
    by (simp add: getContent_def or_empty_def js_def newline_def)
qed

text \<open>
  C1 as the specification states it fails: the lines after the insert are three,
  not \<^verbatim>\<open>["aX", "Yb"]\<close>.
\<close>

theorem insertText_scenario_counterexample:
  "lines doc_ab = [Some (js ''a''), Some (js ''b'')] \<and> getCursor doc_ab = (0, 1) \<and>
   lines (insertText (js ''X\<newline>Y'') doc_ab) \<noteq> [Some (js ''aX''), Some (js ''Yb'')] \<and>
   length (lines (insertText (js ''X\<newline>Y'') doc_ab)) = 3"
  by (simp add: doc_ab_def fresh_def eval_defs)

text \<open>
  C2, as amended. When a command is selected (the selected index is within the
  filtered list) and \<^verbatim>\<open>executeSelectedCommand\<close> returns without rejecting, the
  palette is closed afterwards: not open, the command input empty, the filtered list
  empty, the selected index 0. When no command is selected, as after a query that
  matches zero commands, the call is a no-op: the state, the palette with it, is
  left as it was.
\<close>

theorem executeSelectedCommand_palette:
  "(selectedCommandIndex s < length (filteredCommands s) \<and>
      fst (executeSelectedCommand core s) = None
      \<longrightarrow> palette_closed (snd (executeSelectedCommand core s))) \<and>
   (\<not> selectedCommandIndex s < length (filteredCommands s)
      \<longrightarrow> executeSelectedCommand core s = (None, s))"
  using executeSelectedCommand_selected executeSelectedCommand_not_selected by blast

text \<open>
  Both cases at concrete states: the palette with \<^verbatim>\<open>h1\<close> selected is closed by the
  execution, the palette with no match is left as it was.
\<close>

theorem executeSelectedCommand_palette_witness:
  "selectedCommandIndex h1_selected < length (filteredCommands h1_selected) \<and>
   isCommandPaletteOpen h1_selected \<and>
   fst (executeSelectedCommand demo_core h1_selected) = None \<and>
   palette_closed (snd (executeSelectedCommand demo_core h1_selected)) \<and>
   \<not> selectedCommandIndex zero_matches < length (filteredCommands zero_matches) \<and>
   executeSelectedCommand demo_core zero_matches = (None, zero_matches)"
proof -
  have a: "selectedCommandIndex h1_selected < length (filteredCommands h1_selected)"
    and a': "isCommandPaletteOpen h1_selected"
    by (simp_all add: h1_selected_eq fresh_def)
  have b: "fst (executeSelectedCommand demo_core h1_selected) = None"
    by (simp add: execute_h1)
  have c: "\<not> selectedCommandIndex zero_matches < length (filteredCommands zero_matches)"
    by (simp add: zero_matches_eq fresh_def)
  from executeSelectedCommand_palette [of h1_selected demo_core] a b
  have d: "palette_closed (snd (executeSelectedCommand demo_core h1_selected))" by blast
  from executeSelectedCommand_palette [of zero_matches demo_core] c
  have e: "executeSelectedCommand demo_core zero_matches = (None, zero_matches)" by blast
  from a a' b c d e show ?thesis by blast
qed

text \<open>
  C2 as the specification states it fails: after the palette is opened and filtered
  with a query that matches no command, the execution returns and the palette is
  still open, with the query as its input.
\<close>

theorem executeSelectedCommand_palette_counterexample:
  "filteredCommands zero_matches = [] \<and> selectedCommandIndex zero_matches = 0 \<and>
   fst (executeSelectedCommand demo_core zero_matches) = None \<and>
   isCommandPaletteOpen (snd (executeSelectedCommand demo_core zero_matches)) \<and>
   commandInput (snd (executeSelectedCommand demo_core zero_matches)) = js ''zzz'' \<and>
   \<not> palette_closed (snd (executeSelectedCommand demo_core zero_matches))"
  by (simp add: zero_matches_eq fresh_def executeSelectedCommand_def palette_closed_def js_def)

text \<open>
  C3. If the selected command index is out of range of the filtered command list
  (for example, the list is empty), \<^verbatim>\<open>executeSelectedCommand\<close> is a no-op and not an
  error: it returns without an exception and the state (the document lines, the
  cursor and the dirty flag with it) is unchanged.
\<close>

theorem executeSelectedCommand_out_of_range:
  assumes "length (filteredCommands s) \<le> selectedCommandIndex s"
  shows "executeSelectedCommand core s = (None, s)"
  using assms by (simp add: executeSelectedCommand_def)

text \<open>The empty list, and an index beyond a list of one command.\<close>

theorem executeSelectedCommand_out_of_range_witness:
  "length (filteredCommands zero_matches) \<le> selectedCommandIndex zero_matches \<and>
   executeSelectedCommand demo_core zero_matches = (None, zero_matches) \<and>
   length (filteredCommands (h1_selected\<lparr> selectedCommandIndex := 1 \<rparr>)) \<le> 1 \<and>
   executeSelectedCommand demo_core (h1_selected\<lparr> selectedCommandIndex := 1 \<rparr>)
     = (None, h1_selected\<lparr> selectedCommandIndex := 1 \<rparr>)"
proof -
  have a: "length (filteredCommands zero_matches) \<le> selectedCommandIndex zero_matches"
    by (simp add: zero_matches_eq fresh_def)
  have b: "length (filteredCommands (h1_selected\<lparr> selectedCommandIndex := 1 \<rparr>))
      \<le> selectedCommandIndex (h1_selected\<lparr> selectedCommandIndex := 1 \<rparr>)"
    by (simp add: h1_selected_eq)
  from executeSelectedCommand_out_of_range [OF a, of demo_core]
    executeSelectedCommand_out_of_range [OF b, of demo_core] a b
  show ?thesis by simp
qed

text \<open>
  C4, as amended. Provided the cursor invariant held before, it holds after
  \<^verbatim>\<open>insertText\<close>, \<^verbatim>\<open>save\<close>, \<^verbatim>\<open>openCommandPalette\<close>, \<^verbatim>\<open>closeCommandPalette\<close>,
  \<^verbatim>\<open>filterCommands\<close> and \<^verbatim>\<open>executeSelectedCommand\<close>. \<^verbatim>\<open>setContent\<close> replaces the
  lines and does not move the cursor: after it the invariant holds exactly when the
  old cursor line is a line of the new content and the old column is within that
  line.
\<close>

theorem cursor_invariant_preserved:
  assumes "cursor_ok s"
  shows "cursor_ok (insertText ins s) \<and>
         cursor_ok (fst (snd (save io s fs))) \<and>
         cursor_ok (openCommandPalette core s) \<and>
         cursor_ok (closeCommandPalette s) \<and>
         cursor_ok (filterCommands core input s) \<and>
         cursor_ok (snd (executeSelectedCommand core s)) \<and>
         (cursor_ok (setContent c s) \<longleftrightarrow>
            cursorLine s < length (split_nl c) \<and>
            cursorColumn s \<le> length (split_nl c ! cursorLine s))"
  using assms
  by (simp add: cursor_ok_insertText cursor_ok_save cursor_ok_openCommandPalette
      cursor_ok_closeCommandPalette cursor_ok_filterCommands cursor_ok_executeSelectedCommand
      cursor_ok_setContent)

text \<open>
  At \<open>doc_ab\<close> (cursor at line 0, column 1): every operation keeps the invariant,
  \<^verbatim>\<open>setContent("xyz")\<close> too, and \<^verbatim>\<open>setContent("")\<close> does not.
\<close>

theorem cursor_invariant_preserved_witness:
  "cursor_ok doc_ab \<and>
   cursor_ok (insertText (js ''X\<newline>Y'') doc_ab) \<and>
   cursor_ok (fst (snd (save mem_io doc_ab []))) \<and>
   cursor_ok (openCommandPalette demo_core doc_ab) \<and>
   cursor_ok (closeCommandPalette doc_ab) \<and>
   cursor_ok (filterCommands demo_core (js ''h'') doc_ab) \<and>
   cursor_ok (snd (executeSelectedCommand demo_core doc_ab)) \<and>
   cursor_ok (setContent (js ''xyz'') doc_ab) \<and>
   \<not> cursor_ok (setContent [] doc_ab)"
proof -
  have s1: "split_nl (js ''xyz'') = [js ''xyz'']"
    by (simp add: js_def newline_def)
  note th = cursor_invariant_preserved [OF cursor_ok_doc_ab, of _ mem_io "[]" demo_core "js ''h''"]
  from th [of "js ''X\<newline>Y''" "js ''xyz''"] th [of "[]" "[]"] cursor_ok_doc_ab s1
  show ?thesis by (simp add: doc_ab_def fresh_def js_def)
qed

text \<open>
  C4 as the specification states it fails for \<^verbatim>\<open>setContent\<close>: after
  \<^verbatim>\<open>insertText("ab")\<close> on the new editor the cursor is at line 0, column 2, and
  \<^verbatim>\<open>setContent("")\<close> leaves it there, beyond the end of the one empty line.
\<close>

theorem cursor_invariant_counterexample:
  "cursor_ok (insertText (js ''ab'') fresh) \<and>
   getCursor (setContent [] (insertText (js ''ab'') fresh)) = (0, 2) \<and>
   lines (setContent [] (insertText (js ''ab'') fresh)) = [Some []] \<and>
   \<not> cursor_ok (setContent [] (insertText (js ''ab'') fresh))"
  by (simp add: cursor_ok_def setContent_def fresh_def eval_defs)

text \<open>
  C5. For every valid cursor position and every inserted text with exactly \<open>k\<close>
  newline characters, \<open>k \<ge> 1\<close>, \<^verbatim>\<open>insertText\<close> increases the number of lines of the
  buffer by exactly \<open>k\<close>.
\<close>

theorem insertText_line_count:
  assumes "cursor_ok s" and "count_list ins newline = k" and "1 \<le> k"
  shows "length (lines (insertText ins s)) = length (lines s) + k"
proof -
  from assms(1) have "cursorLine s < length (lines s)" by (rule cursor_ok_D)
  then show ?thesis using assms(2) by (simp add: length_lines_insertText)
qed

text \<open>Two newlines inserted into the two lines of \<open>doc_ab\<close> give four lines.\<close>

theorem insertText_line_count_witness:
  "cursor_ok doc_ab \<and> count_list (js ''X\<newline>M\<newline>Y'') newline = 2 \<and> (1::nat) \<le> 2 \<and>
   length (lines doc_ab) = 2 \<and>
   length (lines (insertText (js ''X\<newline>M\<newline>Y'') doc_ab)) = 4"
proof -
  have k: "count_list (js ''X\<newline>M\<newline>Y'') newline = 2"
    by (simp add: js_def newline_def)
  have n: "length (lines doc_ab) = 2"
    by (simp add: doc_ab_def)
  from insertText_line_count [OF cursor_ok_doc_ab k] n cursor_ok_doc_ab k
  show ?thesis by simp
qed

text \<open>
  C6. For every document and valid cursor position, inserting a text with no newline
  replaces the cursor's line \<open>l\<close> by \<open>l\<close> with the text spliced in at the column, so
  that its length grows by exactly the length of the text; the cursor stays on its
  line and its column advances by the same amount; and every other line of the
  document, and the number of lines, is unchanged.
\<close>

theorem insertText_no_newline:
  assumes "cursor_ok s" and "newline \<notin> set ins"
  shows "\<exists>l. aget (lines s) (cursorLine s) = Some l \<and>
     aget (lines (insertText ins s)) (cursorLine s)
       = Some (take (cursorColumn s) l @ ins @ drop (cursorColumn s) l) \<and>
     length (take (cursorColumn s) l @ ins @ drop (cursorColumn s) l) = length l + length ins \<and>
     cursorLine (insertText ins s) = cursorLine s \<and>
     cursorColumn (insertText ins s) = cursorColumn s + length ins \<and>
     length (lines (insertText ins s)) = length (lines s) \<and>
     (\<forall>i. i \<noteq> cursorLine s \<longrightarrow> aget (lines (insertText ins s)) i = aget (lines s) i)"
proof -
  from assms(1) obtain l where l: "aget (lines s) (cursorLine s) = Some l"
    and lt: "cursorLine s < length (lines s)"
    by (rule cursor_ok_D)
  note eq = insertText_single [OF l assms(2)]
  have "aget (lines (insertText ins s)) (cursorLine s)
       = Some (take (cursorColumn s) l @ ins @ drop (cursorColumn s) l)"
    using lt by (simp add: eq aget_def)
  moreover
  have "\<forall>i. i \<noteq> cursorLine s \<longrightarrow> aget (lines (insertText ins s)) i = aget (lines s) i"
    by (simp add: eq aget_def)
  moreover
  have "length (take (cursorColumn s) l @ ins @ drop (cursorColumn s) l) = length l + length ins"
    by simp
  ultimately show ?thesis using l by (simp add: eq)
qed

text \<open>Two characters inserted after the \<^verbatim>\<open>a\<close> of \<open>doc_ab\<close>.\<close>

theorem insertText_no_newline_witness:
  "cursor_ok doc_ab \<and> newline \<notin> set (js ''XY'') \<and>
   lines (insertText (js ''XY'') doc_ab) = [Some (js ''aXY''), Some (js ''b'')] \<and>
   getCursor (insertText (js ''XY'') doc_ab) = (0, 3)"
proof -
  have nn: "newline \<notin> set (js ''XY'')"
    by (simp add: js_def newline_def)
  from insertText_no_newline [OF cursor_ok_doc_ab nn]
  have "cursorColumn (insertText (js ''XY'') doc_ab) = cursorColumn doc_ab + length (js ''XY'')"
    and "cursorLine (insertText (js ''XY'') doc_ab) = cursorLine doc_ab"
    by blast+
  moreover have "lines (insertText (js ''XY'') doc_ab) = [Some (js ''aXY''), Some (js ''b'')]"
    by (simp add: doc_ab_def fresh_def eval_defs)
  ultimately show ?thesis using cursor_ok_doc_ab nn
    by (simp add: getCursor_def doc_ab_def fresh_def js_def)
qed

text \<open>
  C7. For every string \<open>x\<close> (the empty string and strings with leading or trailing
  newlines included), \<^verbatim>\<open>setContent(x)\<close> followed by \<^verbatim>\<open>getContent()\<close> returns
  exactly \<open>x\<close>.
\<close>

theorem setContent_getContent: "getContent (setContent x s) = x"
  by (simp add: getContent_def setContent_def join_split_nl)

text \<open>The empty string, and a string with a leading and a trailing newline.\<close>

theorem setContent_getContent_witness:
  "getContent (setContent [] doc_ab) = [] \<and>
   lines (setContent (js ''\<newline>a\<newline>'') doc_ab) = [Some [], Some (js ''a''), Some []] \<and>
   getContent (setContent (js ''\<newline>a\<newline>'') doc_ab) = js ''\<newline>a\<newline>''"
proof -
  have "lines (setContent (js ''\<newline>a\<newline>'') doc_ab) = [Some [], Some (js ''a''), Some []]"
    by (simp add: setContent_def js_def newline_def)
  with setContent_getContent [of "[]" doc_ab]
    setContent_getContent [of "js ''\<newline>a\<newline>''" doc_ab]
  show ?thesis by simp
qed

text \<open>
  C8. When no file path is bound to the editor (the path is absent, or the empty
  string, which is as false as the absent one), \<^verbatim>\<open>save()\<close> returns false and
  leaves the dirty flag, the rest of the state and the file system unchanged.
\<close>

theorem save_no_path:
  assumes "filePath s = None \<or> filePath s = Some []"
  shows "save io s fs = (False, s, fs)"
  using assms by (auto simp: save_def)

text \<open>The new editor has no path; a dirty editor with the empty path stays dirty.\<close>

theorem save_no_path_witness:
  "filePath fresh = None \<and> save mem_io fresh notes_fs = (False, fresh, notes_fs) \<and>
   filePath (doc_ab\<lparr> filePath := Some [] \<rparr>) = Some [] \<and>
   save mem_io (doc_ab\<lparr> filePath := Some [] \<rparr>) notes_fs
     = (False, doc_ab\<lparr> filePath := Some [] \<rparr>, notes_fs) \<and>
   isDirty (doc_ab\<lparr> filePath := Some [] \<rparr>)"
proof -
  have a: "filePath fresh = None \<or> filePath fresh = Some []"
    by (simp add: fresh_def)
  have b: "filePath (doc_ab\<lparr> filePath := Some [] \<rparr>) = None \<or>
           filePath (doc_ab\<lparr> filePath := Some [] \<rparr>) = Some []"
    by simp
  from save_no_path [OF a, of mem_io notes_fs] save_no_path [OF b, of mem_io notes_fs]
  show ?thesis by (simp add: doc_ab_def fresh_def)
qed

text \<open>
  C9. After a successful \<^verbatim>\<open>save()\<close> the dirty flag is false, and every
  \<^verbatim>\<open>insertText\<close> call after it, on the saved state or on any later one, sets the
  flag to true whatever the inserted text is, the empty string included.
\<close>

theorem save_then_insertText_dirty:
  assumes "save io s fs = (True, s', fs')"
  shows "\<not> isDirty s' \<and> (\<forall>ins. isDirty (insertText ins s')) \<and> isDirty (insertText [] s') \<and>
         (\<forall>ins t. isDirty (insertText ins t))"
proof -
  from assms have "s' = s\<lparr> isDirty := False \<rparr>"
    by (auto simp: save_def split: option.splits if_splits prod.splits)
  then show ?thesis by (simp add: isDirty_insertText)
qed

text \<open>
  The dirty document \<open>doc_ab\<close> bound to \<^verbatim>\<open>notes.md\<close>: the save writes
  \<^verbatim>\<open>"a\nb"\<close> and clears the flag, the empty insert sets it again.
\<close>

theorem save_then_insertText_dirty_witness:
  "isDirty (doc_ab\<lparr> filePath := Some (js ''notes.md'') \<rparr>) \<and>
   save mem_io (doc_ab\<lparr> filePath := Some (js ''notes.md'') \<rparr>) []
     = (True, doc_ab\<lparr> filePath := Some (js ''notes.md''), isDirty := False \<rparr>,
        [(js ''notes.md'', js ''a\<newline>b'')]) \<and>
   \<not> isDirty (doc_ab\<lparr> filePath := Some (js ''notes.md''), isDirty := False \<rparr>) \<and>
   isDirty (insertText [] (doc_ab\<lparr> filePath := Some (js ''notes.md''), isDirty := False \<rparr>))"
proof -
  have a: "save mem_io (doc_ab\<lparr> filePath := Some (js ''notes.md'') \<rparr>) []
     = (True, doc_ab\<lparr> filePath := Some (js ''notes.md''), isDirty := False \<rparr>,
        [(js ''notes.md'', js ''a\<newline>b'')])"
    by (simp add: save_def mem_io_def getContent_def doc_ab_def fresh_def js_def or_empty_def
        newline_def)
  from save_then_insertText_dirty [OF a] a show ?thesis
    by (simp add: doc_ab_def)
qed

text \<open>
  C10. Immediately after construction, from the content of an existing file or from
  a literal content string, the editor is not dirty and the cursor is at line 0,
  column 0. The construction fails only where reading the existing file throws.
\<close>

theorem constructor_clean:
  "(case constructor io fs options of
      Inr s \<Rightarrow> \<not> isDirty s \<and> getCursor s = (0, 0)
    | Inl e \<Rightarrow> (\<exists>p. opt_filePath options = Some p \<and> p \<noteq> [] \<and> existsSync io p fs \<and>
                    readFileSync io p fs = Inl e))"
  by (auto simp: constructor_def Let_def getCursor_def split: option.splits sum.splits)

text \<open>
  The file \<^verbatim>\<open>notes.md\<close> where it exists, the literal content where it does not,
  and no options at all.
\<close>

theorem constructor_clean_witness:
  "(\<exists>s. constructor mem_io notes_fs notes_options = Inr s \<and>
        lines s = [Some (js ''one''), Some (js ''two'')] \<and> \<not> isDirty s \<and> getCursor s = (0, 0)) \<and>
   (\<exists>s. constructor mem_io [] notes_options = Inr s \<and>
        lines s = [Some (js ''hello'')] \<and> \<not> isDirty s \<and> getCursor s = (0, 0)) \<and>
   constructor mem_io [] no_options = Inr fresh"
proof -
  have a: "\<exists>s. constructor mem_io notes_fs notes_options = Inr s \<and>
      lines s = [Some (js ''one''), Some (js ''two'')]"
    by (simp add: constructor_def mem_io_def notes_fs_def notes_options_def eval_defs)
  have b: "\<exists>s. constructor mem_io [] notes_options = Inr s \<and> lines s = [Some (js ''hello'')]"
    by (simp add: constructor_def mem_io_def notes_options_def eval_defs)
  from a constructor_clean [where io = mem_io and fs = notes_fs and options = notes_options]
    b constructor_clean [where io = mem_io and fs = "[]" and options = notes_options]
    constructor_no_options [of mem_io "[]"]
  show ?thesis by auto
qed

end
